theory Spec2Isabelle
  imports Complex_Main "HOL-Library.Sublist"
begin

section \<open>Stored documents and the response model\<close>

text \<open>
  A document of the \<open>property\<close> collection, as \<open>find\<close> hands it to \<open>list_properties\<close>.
  The store is schemaless, so every key may be absent: \<open>None\<close> is an absent key,
  \<open>Some v\<close> a key holding a value of the type the \<open>Property\<close> schema stores.
  Python's \<open>float\<close> is held as a rational (the finite values, compared by value), and
  text as a list of ASCII characters. A key held with a null or with a value of another
  type is not a value of this record: the results below speak of absent keys and of
  schema-typed values only.
\<close>

record raw_doc =
  doc_id :: "string option"
  doc_title :: "string option"
  doc_status :: "string option"
  doc_price :: "int option"
  doc_currency :: "string option"
  doc_address :: "string option"
  doc_city :: "string option"
  doc_state :: "string option"
  doc_country :: "string option"
  doc_bedrooms :: "int option"
  doc_bathrooms :: "rat option"
  doc_property_type :: "string option"
  doc_area_sqft :: "int option"
  doc_lot_size_sqft :: "int option"
  doc_year_built :: "int option"
  doc_parking_spaces :: "int option"
  doc_hoa_fee :: "int option"
  doc_description :: "string option"
  doc_images :: "string list option"
  doc_features :: "string list option"

text \<open>\<open>class PropertyResponse(BaseModel)\<close>: the fields typed \<open>Optional[...]\<close> admit \<open>None\<close>,
  the others do not.\<close>

record PropertyResponse =
  res_id :: string
  res_title :: string
  res_status :: string
  res_price :: int
  res_currency :: string
  res_address :: string
  res_city :: string
  res_state :: "string option"
  res_country :: string
  res_bedrooms :: int
  res_bathrooms :: rat
  res_property_type :: string
  res_area_sqft :: "int option"
  res_lot_size_sqft :: "int option"
  res_year_built :: "int option"
  res_parking_spaces :: "int option"
  res_hoa_fee :: "int option"
  res_description :: "string option"
  res_images :: "string list"
  res_features :: "string list"

text \<open>
  What a request can end with instead of a list of responses:
  \<^item> \<open>RequestValidationError\<close>: a \<open>Query(...)\<close> constraint of the route is violated
    (FastAPI answers 422 and never calls the function);
  \<^item> \<open>HTTPException code detail\<close>: raised by the function itself;
  \<^item> \<open>ValidationError fields\<close>: the constructor of \<open>PropertyResponse\<close> was given \<open>None\<close>
    for the listed fields, whose declared type does not admit it.
\<close>

datatype error =
    RequestValidationError
  | HTTPException int string
  | ValidationError "string list"

subsection \<open>Building one response (the body of the \<open>for d in docs\<close> loop)\<close>

text \<open>\<open>d.get(k, default)\<close>: the default stands in for an absent key.\<close>

definition get_default :: "'a option \<Rightarrow> 'a \<Rightarrow> 'a" where
  "get_default v dflt = (case v of None \<Rightarrow> dflt | Some x \<Rightarrow> x)"

text \<open>\<open>str(d.get("_id"))\<close>: the text of the identifier, and \<open>"None"\<close> for an absent one.\<close>

definition str_of_id :: "string option \<Rightarrow> string" where
  "str_of_id v = (case v of None \<Rightarrow> ''None'' | Some s \<Rightarrow> s)"

text \<open>The name of a field whose declared type excludes the \<open>None\<close> it received.\<close>

definition none_not_allowed :: "string \<Rightarrow> 'a option \<Rightarrow> string list" where
  "none_not_allowed k v = (case v of None \<Rightarrow> [k] | Some _ \<Rightarrow> [])"

definition missing_required :: "raw_doc \<Rightarrow> string list" where
  "missing_required d =
     none_not_allowed ''title'' (doc_title d) @
     none_not_allowed ''status'' (doc_status d) @
     none_not_allowed ''price'' (doc_price d) @
     none_not_allowed ''address'' (doc_address d) @
     none_not_allowed ''city'' (doc_city d)"

text \<open>
  \<open>PropertyResponse(id=str(d.get("_id")), title=d.get("title"), ...)\<close>.
  \<open>title\<close>, \<open>status\<close>, \<open>price\<close>, \<open>address\<close> and \<open>city\<close> are read with no default into
  fields of type \<open>str\<close> and \<open>int\<close>: an absent key gives \<open>None\<close>, which the model's
  validation refuses. On the documents of \<open>raw_doc\<close> that is the only way the constructor
  fails; the real constructor also refuses a null or a value of another type under a
  present key, which \<open>raw_doc\<close> cannot hold.
\<close>

definition build_response :: "raw_doc \<Rightarrow> error + PropertyResponse" where
  "build_response d =
     (case (doc_title d, doc_status d, doc_price d, doc_address d, doc_city d) of
        (Some t, Some s, Some p, Some a, Some c) \<Rightarrow>
          Inr \<lparr> res_id = str_of_id (doc_id d),
                res_title = t,
                res_status = s,
                res_price = p,
                res_currency = get_default (doc_currency d) ''USD'',
                res_address = a,
                res_city = c,
                res_state = doc_state d,
                res_country = get_default (doc_country d) ''USA'',
                res_bedrooms = get_default (doc_bedrooms d) 0,
                res_bathrooms = get_default (doc_bathrooms d) 0,
                res_property_type = get_default (doc_property_type d) ''house'',
                res_area_sqft = doc_area_sqft d,
                res_lot_size_sqft = doc_lot_size_sqft d,
                res_year_built = doc_year_built d,
                res_parking_spaces = doc_parking_spaces d,
                res_hoa_fee = doc_hoa_fee d,
                res_description = doc_description d,
                res_images = get_default (doc_images d) [],
                res_features = get_default (doc_features d) [] \<rparr>
      | _ \<Rightarrow> Inl (ValidationError (missing_required d)))"

text \<open>The loop over the documents: the first constructor that raises ends the request.\<close>

fun build_results :: "raw_doc list \<Rightarrow> error + PropertyResponse list" where
  "build_results [] = Inr []"
| "build_results (d # ds) =
     (case build_response d of
        Inl e \<Rightarrow> Inl e
      | Inr r \<Rightarrow> (case build_results ds of Inl e \<Rightarrow> Inl e | Inr rs \<Rightarrow> Inr (r # rs)))"

section \<open>The query sent to the store\<close>

text \<open>
  \<open>filter_query\<close> is a dictionary from keys to conditions; the store selects the documents
  that satisfy all of them. The conditions this program builds:
  \<^item> \<open>Equals v\<close> for \<open>{"status": v}\<close>;
  \<^item> \<open>Regex p o\<close> for \<open>{"$regex": p, "$options": o}\<close>;
  \<^item> \<open>Cmp lo hi\<close> for a dictionary holding \<open>"$gte": lo\<close> and \<open>"$lte": hi\<close>, each of
    them only when present (the store compares numbers by value, so a bound is held as a
    rational whether the source passes an \<open>int\<close> or a \<open>float\<close>).
  The key \<open>"$or"\<close> holds a list of one-key dictionaries, \<open>OrOf\<close>. The entries are kept in
  the order the source inserts them.
\<close>

datatype cond =
    Equals string
  | Regex string string
  | Cmp "rat option" "rat option"

datatype clause =
    Field string cond
  | OrOf "(string \<times> cond) list"

text \<open>\<open>f"^{x}$"\<close>: the value is spliced into the pattern as it is.\<close>

definition anchored :: "string \<Rightarrow> string" where
  "anchored x = ''^'' @ x @ ''$''"

text \<open>
  Lines 66 to 97 of \<open>list_properties\<close>: the dictionary built from the parameters.
  \<open>if q:\<close> is false for \<open>None\<close> and for the empty string; \<open>is not None\<close> is false for
  \<open>None\<close> only.
\<close>

definition filter_query ::
  "string option \<Rightarrow> int option \<Rightarrow> int option \<Rightarrow> int option \<Rightarrow> rat option \<Rightarrow>
   string option \<Rightarrow> string option \<Rightarrow> string option \<Rightarrow> string \<Rightarrow> clause list" where
  "filter_query q min_price max_price bedrooms bathrooms city state property_type status =
     [Field ''status'' (Equals status)] @
     (case q of
        None \<Rightarrow> []
      | Some s \<Rightarrow>
          if s = [] then []
          else [OrOf [(''title'', Regex s ''i''),
                      (''city'', Regex s ''i''),
                      (''state'', Regex s ''i''),
                      (''address'', Regex s ''i'')]]) @
     (if min_price \<noteq> None \<or> max_price \<noteq> None then
        [Field ''price'' (Cmp (map_option of_int min_price) (map_option of_int max_price))]
      else []) @
     (case bedrooms of None \<Rightarrow> [] | Some b \<Rightarrow> [Field ''bedrooms'' (Cmp (Some (of_int b)) None)]) @
     (case bathrooms of None \<Rightarrow> [] | Some b \<Rightarrow> [Field ''bathrooms'' (Cmp (Some b) None)]) @
     (case city of
        None \<Rightarrow> []
      | Some s \<Rightarrow> if s = [] then [] else [Field ''city'' (Regex (anchored s) ''i'')]) @
     (case state of
        None \<Rightarrow> []
      | Some s \<Rightarrow> if s = [] then [] else [Field ''state'' (Regex (anchored s) ''i'')]) @
     (case property_type of
        None \<Rightarrow> []
      | Some s \<Rightarrow> if s = [] then [] else [Field ''property_type'' (Regex (anchored s) ''i'')])"

section \<open>The store\<close>

text \<open>
  The store is the database server behind \<open>db\<close>; the program relies on its documented
  matching rules, which are written out here for the conditions above. A stored value is
  text, a number, a list of texts or an identifier.
\<close>

datatype bson = Str string | Num rat | Arr "string list" | Oid string

definition get_field :: "string \<Rightarrow> raw_doc \<Rightarrow> bson option" where
  "get_field k d =
     (if k = ''_id'' then map_option Oid (doc_id d)
      else if k = ''title'' then map_option Str (doc_title d)
      else if k = ''status'' then map_option Str (doc_status d)
      else if k = ''price'' then map_option (\<lambda>n. Num (of_int n)) (doc_price d)
      else if k = ''currency'' then map_option Str (doc_currency d)
      else if k = ''address'' then map_option Str (doc_address d)
      else if k = ''city'' then map_option Str (doc_city d)
      else if k = ''state'' then map_option Str (doc_state d)
      else if k = ''country'' then map_option Str (doc_country d)
      else if k = ''bedrooms'' then map_option (\<lambda>n. Num (of_int n)) (doc_bedrooms d)
      else if k = ''bathrooms'' then map_option Num (doc_bathrooms d)
      else if k = ''property_type'' then map_option Str (doc_property_type d)
      else if k = ''area_sqft'' then map_option (\<lambda>n. Num (of_int n)) (doc_area_sqft d)
      else if k = ''lot_size_sqft'' then map_option (\<lambda>n. Num (of_int n)) (doc_lot_size_sqft d)
      else if k = ''year_built'' then map_option (\<lambda>n. Num (of_int n)) (doc_year_built d)
      else if k = ''parking_spaces'' then map_option (\<lambda>n. Num (of_int n)) (doc_parking_spaces d)
      else if k = ''hoa_fee'' then map_option (\<lambda>n. Num (of_int n)) (doc_hoa_fee d)
      else if k = ''description'' then map_option Str (doc_description d)
      else if k = ''images'' then map_option Arr (doc_images d)
      else if k = ''features'' then map_option Arr (doc_features d)
      else None)"

text \<open>
  The regular-expression engine of the store, \<open>rx pattern options subject\<close>: whether the
  pattern is found in the subject. It is a parameter of the matching rules; the engine
  used for evaluation is \<open>pcre_search\<close> below.
\<close>

type_synonym regex_engine = "string \<Rightarrow> string \<Rightarrow> string \<Rightarrow> bool"

text \<open>
  A condition on the value stored under a key. An absent key satisfies none of these
  conditions; a list satisfies an equality or a pattern when one of its elements does;
  a bound is satisfied by numbers only.
\<close>

fun cond_holds :: "regex_engine \<Rightarrow> cond \<Rightarrow> bson option \<Rightarrow> bool" where
  "cond_holds rx c None = False"
| "cond_holds rx (Equals v) (Some (Str s)) = (s = v)"
| "cond_holds rx (Equals v) (Some (Arr xs)) = (v \<in> set xs)"
| "cond_holds rx (Equals v) (Some _) = False"
| "cond_holds rx (Regex p opts) (Some (Str s)) = rx p opts s"
| "cond_holds rx (Regex p opts) (Some (Arr xs)) = list_ex (rx p opts) xs"
| "cond_holds rx (Regex p opts) (Some _) = False"
| "cond_holds rx (Cmp lo hi) (Some (Num x)) =
     ((case lo of None \<Rightarrow> True | Some a \<Rightarrow> a \<le> x) \<and> (case hi of None \<Rightarrow> True | Some b \<Rightarrow> x \<le> b))"
| "cond_holds rx (Cmp lo hi) (Some _) = False"

fun clause_holds :: "regex_engine \<Rightarrow> clause \<Rightarrow> raw_doc \<Rightarrow> bool" where
  "clause_holds rx (Field k c) d = cond_holds rx c (get_field k d)"
| "clause_holds rx (OrOf alts) d = list_ex (\<lambda>(k, c). cond_holds rx c (get_field k d)) alts"

definition matches :: "regex_engine \<Rightarrow> clause list \<Rightarrow> raw_doc \<Rightarrow> bool" where
  "matches rx flt d = list_all (\<lambda>c. clause_holds rx c d) flt"

text \<open>
  \<open>cursor.limit(n)\<close>: at most \<open>n\<close> documents; \<open>0\<close> means no limit and a negative \<open>n\<close>
  counts as its absolute value.
\<close>

definition cursor_limit :: "int \<Rightarrow> 'a list \<Rightarrow> 'a list" where
  "cursor_limit n xs = (if n = 0 then xs else take (nat \<bar>n\<bar>) xs)"

text \<open>\<open>db["property"].find(filter_query).limit(limit)\<close> on a collection held in its natural
  order.\<close>

definition find_limit :: "regex_engine \<Rightarrow> raw_doc list \<Rightarrow> clause list \<Rightarrow> int \<Rightarrow> raw_doc list" where
  "find_limit rx coll flt n = cursor_limit n (filter (matches rx flt) coll)"

subsection \<open>The pattern engine on simple patterns\<close>

text \<open>
  The store matches patterns with a Perl-compatible engine. \<open>pcre_search\<close> gives its answer
  for the patterns made of ordinary characters and \<open>.\<close>, with an optional \<open>^\<close> in front
  and an optional \<open>$\<close> at the end:
  \<^item> an ordinary character stands for itself, in either letter case under option \<open>i\<close>;
  \<^item> \<open>.\<close> stands for any character but a line feed;
  \<^item> \<open>^\<close> ties the match to the start of the subject, \<open>$\<close> to its end or to a line feed
    that ends it; without them the pattern may match anywhere in the subject.
  A pattern with any other use of a metacharacter is outside this fragment:
  \<open>parse_pattern\<close> gives \<open>None\<close> and \<open>pcre_search\<close> answers \<open>False\<close>, which says nothing
  about the engine there.
\<close>

definition metachars :: string where
  "metachars = [CHR 0x5C, CHR ''^'', CHR ''$'', CHR ''.'', CHR ''['', CHR '']'', CHR ''|'',
                CHR ''('', CHR '')'', CHR ''?'', CHR ''*'', CHR ''+'', CHR ''{'', CHR ''}'']"

definition line_feed :: char where
  "line_feed = CHR 0x0A"

definition lower :: "char \<Rightarrow> char" where
  "lower c = (let n = (of_char c :: nat) in if 65 \<le> n \<and> n \<le> 90 then char_of (n + 32) else c)"

datatype atom = Lit char | Dot

definition to_atom :: "char \<Rightarrow> atom" where
  "to_atom c = (if c = CHR ''.'' then Dot else Lit c)"

definition parse_pattern :: "string \<Rightarrow> (bool \<times> atom list \<times> bool) option" where
  "parse_pattern p =
     (let from_start = (case p of [] \<Rightarrow> False | c # _ \<Rightarrow> c = CHR ''^'');
          p1 = (if from_start then tl p else p);
          to_end = (case rev p1 of [] \<Rightarrow> False | c # _ \<Rightarrow> c = CHR ''$'');
          body = (if to_end then butlast p1 else p1)
      in if list_all (\<lambda>c. c = CHR ''.'' \<or> c \<notin> set metachars) body
         then Some (from_start, map to_atom body, to_end)
         else None)"

fun atom_matches :: "bool \<Rightarrow> atom \<Rightarrow> char \<Rightarrow> bool" where
  "atom_matches ci (Lit c) x = (if ci then lower x = lower c else x = c)"
| "atom_matches ci Dot x = (x \<noteq> line_feed)"

text \<open>The atoms matched one by one from the head of the subject: what is left of it.\<close>

fun match_here :: "bool \<Rightarrow> atom list \<Rightarrow> string \<Rightarrow> string option" where
  "match_here ci [] s = Some s"
| "match_here ci (a # as) [] = None"
| "match_here ci (a # as) (x # xs) = (if atom_matches ci a x then match_here ci as xs else None)"

definition end_ok :: "bool \<Rightarrow> string \<Rightarrow> bool" where
  "end_ok to_end rest = (if to_end then rest = [] \<or> rest = [line_feed] else True)"

definition match_at :: "bool \<Rightarrow> atom list \<Rightarrow> bool \<Rightarrow> string \<Rightarrow> bool" where
  "match_at ci as to_end s = (case match_here ci as s of None \<Rightarrow> False | Some rest \<Rightarrow> end_ok to_end rest)"

fun match_anywhere :: "bool \<Rightarrow> atom list \<Rightarrow> bool \<Rightarrow> string \<Rightarrow> bool" where
  "match_anywhere ci as to_end [] = match_at ci as to_end []"
| "match_anywhere ci as to_end (x # xs) =
     (match_at ci as to_end (x # xs) \<or> match_anywhere ci as to_end xs)"

definition pcre_search :: regex_engine where
  "pcre_search p opts s =
     (case parse_pattern p of
        None \<Rightarrow> False
      | Some (from_start, as, to_end) \<Rightarrow>
          (let ci = (CHR ''i'' \<in> set opts)
           in if from_start then match_at ci as to_end s else match_anywhere ci as to_end s))"

section \<open>The route \<open>GET /properties\<close>\<close>

text \<open>The calls the function makes on the store, in order.\<close>

datatype store_call = Find "clause list" int

text \<open>
  \<open>list_properties\<close>, called with its ten parameters already validated and defaulted.
  \<open>db\<close> is \<open>None\<close> when the store was not initialised, and the \<open>property\<close> collection
  otherwise. The result is what the function returns or raises, with the calls it made on
  the store. A failure of the store itself (an unreachable server, a pattern its engine
  rejects) is not modelled: \<open>find\<close> is taken on the runs where the store answers.
\<close>

definition list_properties ::
  "regex_engine \<Rightarrow> raw_doc list option \<Rightarrow>
   string option \<Rightarrow> int option \<Rightarrow> int option \<Rightarrow> int option \<Rightarrow> rat option \<Rightarrow>
   string option \<Rightarrow> string option \<Rightarrow> string option \<Rightarrow> string \<Rightarrow> int \<Rightarrow>
   (error + PropertyResponse list) \<times> store_call list" where
  "list_properties rx db q min_price max_price bedrooms bathrooms city state property_type
       status limit =
     (case db of
        None \<Rightarrow> (Inl (HTTPException 500 ''Database not available''), [])
      | Some coll \<Rightarrow>
          (let flt = filter_query q min_price max_price bedrooms bathrooms city state
                       property_type status;
               docs = find_limit rx coll flt limit
           in (build_results docs, [Find flt limit])))"

text \<open>The query parameters of a request, each absent or given.\<close>

record request =
  arg_q :: "string option"
  arg_min_price :: "int option"
  arg_max_price :: "int option"
  arg_bedrooms :: "int option"
  arg_bathrooms :: "rat option"
  arg_city :: "string option"
  arg_state :: "string option"
  arg_property_type :: "string option"
  arg_status :: "string option"
  arg_limit :: "int option"

text \<open>\<open>Query(None, ge=0)\<close> and \<open>Query(50, ge=1, le=200)\<close>: a constraint binds a parameter
  that is given.\<close>

definition ge_ok :: "'a::linorder \<Rightarrow> 'a option \<Rightarrow> bool" where
  "ge_ok lo v = (case v of None \<Rightarrow> True | Some x \<Rightarrow> lo \<le> x)"

definition le_ok :: "'a::linorder \<Rightarrow> 'a option \<Rightarrow> bool" where
  "le_ok hi v = (case v of None \<Rightarrow> True | Some x \<Rightarrow> x \<le> hi)"

definition query_valid :: "request \<Rightarrow> bool" where
  "query_valid r =
     (ge_ok 0 (arg_min_price r) \<and> ge_ok 0 (arg_max_price r) \<and>
      ge_ok 0 (arg_bedrooms r) \<and> ge_ok 0 (arg_bathrooms r) \<and>
      ge_ok 1 (arg_limit r) \<and> le_ok 200 (arg_limit r))"

text \<open>
  The route as the framework runs it: the declared constraints are checked first, a
  violation ends the request before the function is called; otherwise the function is
  called with the declared defaults (\<open>"sale"\<close>, \<open>50\<close>) for what the request leaves out.
\<close>

definition get_properties ::
  "regex_engine \<Rightarrow> raw_doc list option \<Rightarrow> request \<Rightarrow>
   (error + PropertyResponse list) \<times> store_call list" where
  "get_properties rx db r =
     (if query_valid r then
        list_properties rx db (arg_q r) (arg_min_price r) (arg_max_price r) (arg_bedrooms r)
          (arg_bathrooms r) (arg_city r) (arg_state r) (arg_property_type r)
          (get_default (arg_status r) ''sale'') (get_default (arg_limit r) 50)
      else (Inl RequestValidationError, []))"

section \<open>The specification's words\<close>

text \<open>
  The specification speaks of text that occurs in a field case-insensitively as a
  substring, and of fields equal up to letter case. These are its words, written without
  reference to patterns, to compare the store's answers with.
\<close>

definition occurs_ci :: "string \<Rightarrow> string \<Rightarrow> bool" where
  "occurs_ci q s = sublist (map lower q) (map lower s)"

definition equal_ci :: "string \<Rightarrow> string \<Rightarrow> bool" where
  "equal_ci a b = (map lower a = map lower b)"

definition occurs_in :: "string \<Rightarrow> string option \<Rightarrow> bool" where
  "occurs_in q v = (case v of None \<Rightarrow> False | Some s \<Rightarrow> occurs_ci q s)"

text \<open>\<open>q\<close> occurs in at least one of title, city, state and address.\<close>

definition q_occurs :: "string \<Rightarrow> raw_doc \<Rightarrow> bool" where
  "q_occurs q d =
     (occurs_in q (doc_title d) \<or> occurs_in q (doc_city d) \<or>
      occurs_in q (doc_state d) \<or> occurs_in q (doc_address d))"

text \<open>A value with no metacharacter of the pattern language in it.\<close>

definition plain :: "string \<Rightarrow> bool" where
  "plain p = list_all (\<lambda>c. c \<notin> set metachars) p"

section \<open>Sample data\<close>

text \<open>A fully populated listing, a listing that holds only the five fields read without a
  default, and the same listing without its title.\<close>

definition doc_loft :: raw_doc where
  "doc_loft = \<lparr> doc_id = Some ''64b7f0c2a1d3e4f5a6b7c8d9'', doc_title = Some ''Loft'',
      doc_status = Some ''sale'', doc_price = Some 250000, doc_currency = Some ''EUR'',
      doc_address = Some ''125 Main St'', doc_city = Some ''Austin'', doc_state = Some ''TX'',
      doc_country = Some ''USA'', doc_bedrooms = Some 2, doc_bathrooms = Some (3 / 2),
      doc_property_type = Some ''condo'', doc_area_sqft = Some 900, doc_lot_size_sqft = None,
      doc_year_built = Some 1999, doc_parking_spaces = None, doc_hoa_fee = None,
      doc_description = None, doc_images = Some [''a.png''], doc_features = Some [] \<rparr>"

definition doc_cabin :: raw_doc where
  "doc_cabin = \<lparr> doc_id = Some ''64b7f0c2a1d3e4f5a6b7c8da'', doc_title = Some ''Cabin'',
      doc_status = Some ''sale'', doc_price = Some 90000, doc_currency = None,
      doc_address = Some ''7 Pine Rd'', doc_city = Some ''Boston'', doc_state = None,
      doc_country = None, doc_bedrooms = None, doc_bathrooms = None,
      doc_property_type = None, doc_area_sqft = None, doc_lot_size_sqft = None,
      doc_year_built = None, doc_parking_spaces = None, doc_hoa_fee = None,
      doc_description = None, doc_images = None, doc_features = None \<rparr>"

definition doc_untitled :: raw_doc where
  "doc_untitled = \<lparr> doc_id = Some ''64b7f0c2a1d3e4f5a6b7c8db'', doc_title = None,
      doc_status = Some ''sale'', doc_price = Some 90000, doc_currency = None,
      doc_address = Some ''7 Pine Rd'', doc_city = Some ''Boston'', doc_state = None,
      doc_country = None, doc_bedrooms = None, doc_bathrooms = None,
      doc_property_type = None, doc_area_sqft = None, doc_lot_size_sqft = None,
      doc_year_built = None, doc_parking_spaces = None, doc_hoa_fee = None,
      doc_description = None, doc_images = None, doc_features = None \<rparr>"

definition resp_loft :: PropertyResponse where
  "resp_loft = \<lparr> res_id = ''64b7f0c2a1d3e4f5a6b7c8d9'', res_title = ''Loft'',
      res_status = ''sale'', res_price = 250000, res_currency = ''EUR'',
      res_address = ''125 Main St'', res_city = ''Austin'', res_state = Some ''TX'',
      res_country = ''USA'', res_bedrooms = 2, res_bathrooms = 3 / 2,
      res_property_type = ''condo'', res_area_sqft = Some 900, res_lot_size_sqft = None,
      res_year_built = Some 1999, res_parking_spaces = None, res_hoa_fee = None,
      res_description = None, res_images = [''a.png''], res_features = [] \<rparr>"


text \<open>The request with no parameter given.\<close>

definition req_none :: request where
  "req_none = \<lparr> arg_q = None, arg_min_price = None, arg_max_price = None, arg_bedrooms = None,
      arg_bathrooms = None, arg_city = None, arg_state = None, arg_property_type = None,
      arg_status = None, arg_limit = None \<rparr>"

section \<open>Facts about the response loop\<close>

lemma build_results_length: "build_results ds = Inr rs \<Longrightarrow> length rs = length ds"
  by (induction ds arbitrary: rs) (auto split: sum.splits)

lemma build_results_member:
  "build_results ds = Inr rs \<Longrightarrow> x \<in> set rs \<Longrightarrow> \<exists>d \<in> set ds. build_response d = Inr x"
  by (induction ds arbitrary: rs) (auto split: sum.splits)

lemma build_response_price: "build_response d = Inr x \<Longrightarrow> doc_price d = Some (res_price x)"
  by (auto simp: build_response_def split: option.splits)

section \<open>Facts about the store\<close>

lemma cursor_limit_subset: "set (cursor_limit n xs) \<subseteq> set xs"
  by (auto simp: cursor_limit_def dest: in_set_takeD)

lemma cursor_limit_length: "1 \<le> n \<Longrightarrow> int (length (cursor_limit n xs)) \<le> n"
  by (auto simp: cursor_limit_def)

lemma find_limit_matches:
  "d \<in> set (find_limit rx coll flt n) \<Longrightarrow> d \<in> set coll \<and> matches rx flt d"
  using cursor_limit_subset [of n "filter (matches rx flt) coll"]
  by (auto simp: find_limit_def)

lemma matches_status_only:
  "matches rx (filter_query None None None None None None None None st) d \<longleftrightarrow>
     doc_status d = Some st"
  by (cases "doc_status d") (simp_all add: filter_query_def matches_def get_field_def)

lemma matches_price:
  assumes "matches rx (filter_query q mn mx bd bt c s pt st) d"
  shows "(case mn of None \<Rightarrow> True | Some lo \<Rightarrow> \<exists>p. doc_price d = Some p \<and> lo \<le> p) \<and>
         (case mx of None \<Rightarrow> True | Some hi \<Rightarrow> \<exists>p. doc_price d = Some p \<and> p \<le> hi)"
proof -
  have "mn \<noteq> None \<or> mx \<noteq> None \<Longrightarrow>
        cond_holds rx (Cmp (map_option of_int mn) (map_option of_int mx)) (get_field ''price'' d)"
    using assms by (simp add: filter_query_def matches_def)
  then show ?thesis
    by (cases "doc_price d"; cases mn; cases mx) (simp_all add: get_field_def)
qed

lemma matches_bedrooms:
  "matches rx (filter_query q mn mx (Some b) bt c s pt st) d \<Longrightarrow>
     \<exists>n. doc_bedrooms d = Some n \<and> b \<le> n"
  by (cases "doc_bedrooms d") (simp_all add: filter_query_def matches_def get_field_def)

lemma matches_bathrooms:
  "matches rx (filter_query q mn mx bd (Some b) c s pt st) d \<Longrightarrow>
     \<exists>x. doc_bathrooms d = Some x \<and> b \<le> x"
  by (cases "doc_bathrooms d") (simp_all add: filter_query_def matches_def get_field_def)

text \<open>The text search is one more condition beside the others: the four patterns joined by
  \<open>or\<close>, and the rest of the query unchanged.\<close>

lemma matches_q:
  "q \<noteq> [] \<Longrightarrow>
   matches rx (filter_query (Some q) mn mx bd bt c s pt st) d \<longleftrightarrow>
     (cond_holds rx (Regex q ''i'') (map_option Str (doc_title d)) \<or>
      cond_holds rx (Regex q ''i'') (map_option Str (doc_city d)) \<or>
      cond_holds rx (Regex q ''i'') (map_option Str (doc_state d)) \<or>
      cond_holds rx (Regex q ''i'') (map_option Str (doc_address d))) \<and>
     matches rx (filter_query None mn mx bd bt c s pt st) d"
  by (auto simp: filter_query_def matches_def get_field_def)

lemma matches_city:
  "c \<noteq> [] \<Longrightarrow>
   matches rx (filter_query q mn mx bd bt (Some c) s pt st) d \<longleftrightarrow>
     cond_holds rx (Regex (anchored c) ''i'') (map_option Str (doc_city d)) \<and>
     matches rx (filter_query q mn mx bd bt None s pt st) d"
  by (auto simp: filter_query_def matches_def get_field_def)

section \<open>Facts about the pattern engine\<close>

lemma plain_to_atom: "plain p \<Longrightarrow> map to_atom p = map Lit p"
  by (induction p) (auto simp: plain_def to_atom_def metachars_def)

lemma plain_list_all: "plain p \<Longrightarrow> list_all (\<lambda>c. c = CHR ''.'' \<or> c \<notin> set metachars) p"
  by (auto simp: plain_def list_all_iff)

lemma parse_plain: "plain p \<Longrightarrow> parse_pattern p = Some (False, map Lit p, False)"
proof -
  assume p: "plain p"
  have a: "(case p of [] \<Rightarrow> False | c # _ \<Rightarrow> c = CHR ''^'') = False"
    using p by (cases p) (auto simp: plain_def metachars_def)
  have "plain (rev p)" using p by (simp add: plain_def list_all_iff)
  then have b: "(case rev p of [] \<Rightarrow> False | c # _ \<Rightarrow> c = CHR ''$'') = False"
    by (cases "rev p") (auto simp: plain_def metachars_def)
  show ?thesis
    using plain_list_all [OF p] plain_to_atom [OF p]
    by (simp add: parse_pattern_def Let_def a b)
qed

lemma parse_anchored: "plain p \<Longrightarrow> parse_pattern (anchored p) = Some (True, map Lit p, True)"
proof -
  assume p: "plain p"
  show ?thesis
    using plain_list_all [OF p] plain_to_atom [OF p]
    by (simp add: parse_pattern_def Let_def anchored_def)
qed

lemma match_here_lit:
  "match_here True (map Lit p) s =
     (if prefix (map lower p) (map lower s) then Some (drop (length p) s) else None)"
proof (induction p arbitrary: s)
  case Nil
  then show ?case by simp
next
  case (Cons c p)
  then show ?case by (cases s) auto
qed

lemma match_anywhere_lit:
  "match_anywhere True (map Lit p) False s = sublist (map lower p) (map lower s)"
proof (induction s)
  case Nil
  then show ?case by (simp add: match_at_def match_here_lit end_ok_def)
next
  case (Cons x xs)
  then show ?case
    by (simp add: match_at_def match_here_lit end_ok_def sublist_Cons_right)
qed

text \<open>A plain value, used as a pattern, is searched for as text in either letter case.\<close>

lemma pcre_search_plain: "plain q \<Longrightarrow> pcre_search q ''i'' s = occurs_ci q s"
  by (simp add: pcre_search_def parse_plain match_anywhere_lit occurs_ci_def)

lemma lower_line_feed: "lower c = line_feed \<longleftrightarrow> c = line_feed"
proof
  assume l: "lower c = line_feed"
  show "c = line_feed"
  proof (rule ccontr)
    assume n: "c \<noteq> line_feed"
    with l have r: "65 \<le> (of_char c :: nat) \<and> (of_char c :: nat) \<le> 90"
      and e: "char_of ((of_char c :: nat) + 32) = line_feed"
      by (auto simp: lower_def Let_def split: if_splits)
    from e have "(of_char (char_of ((of_char c :: nat) + 32) :: char) :: nat) = of_char line_feed"
      by simp
    with r show False by (simp add: line_feed_def)
  qed
next
  assume "c = line_feed"
  then show "lower c = line_feed" by (simp add: lower_def line_feed_def)
qed

lemma match_at_anchored_lit:
  "match_at True (map Lit c) True s \<longleftrightarrow>
     map lower s = map lower c \<or> map lower s = map lower c @ [line_feed]"
proof
  assume "match_at True (map Lit c) True s"
  then have pre: "prefix (map lower c) (map lower s)"
    and rest: "drop (length c) s = [] \<or> drop (length c) s = [line_feed]"
    by (auto simp: match_at_def match_here_lit end_ok_def split: if_splits)
  from pre obtain zs where zs: "map lower s = map lower c @ zs"
    by (auto simp: prefix_def)
  then have "zs = drop (length c) (map lower s)" by simp
  then have "zs = map lower (drop (length c) s)" by (simp add: drop_map)
  with rest have "zs = [] \<or> zs = [line_feed]"
    by (auto simp: lower_line_feed)
  with zs show "map lower s = map lower c \<or> map lower s = map lower c @ [line_feed]" by auto
next
  assume h: "map lower s = map lower c \<or> map lower s = map lower c @ [line_feed]"
  then have pre: "prefix (map lower c) (map lower s)" by (auto simp: prefix_def)
  from h have "map lower (drop (length c) s) = [] \<or> map lower (drop (length c) s) = [line_feed]"
  proof
    assume "map lower s = map lower c"
    then have "drop (length c) (map lower s) = []" by simp
    then show ?thesis by (simp add: drop_map)
  next
    assume "map lower s = map lower c @ [line_feed]"
    then have "drop (length c) (map lower s) = [line_feed]" by simp
    then show ?thesis by (simp add: drop_map)
  qed
  then have "drop (length c) s = [] \<or> drop (length c) s = [line_feed]"
    by (auto simp: lower_line_feed map_eq_Cons_conv)
  with pre show "match_at True (map Lit c) True s"
    by (simp add: match_at_def match_here_lit end_ok_def)
qed

text \<open>A plain value between \<open>^\<close> and \<open>$\<close> matches the texts equal to it up to letter case,
  and those texts followed by one line feed.\<close>

lemma pcre_search_anchored:
  "plain c \<Longrightarrow>
   pcre_search (anchored c) ''i'' s = (equal_ci c s \<or> map lower s = map lower c @ [line_feed])"
  by (auto simp: pcre_search_def parse_anchored match_at_anchored_lit equal_ci_def)

text \<open>On plain values the text search is the substring search of the specification, and
  the city filter its equality up to letter case (line feed apart).\<close>

lemma plain_q_is_substring_search:
  assumes "plain q" and "q \<noteq> []"
  shows "matches pcre_search (filter_query (Some q) mn mx bd bt c s pt st) d \<longleftrightarrow>
           q_occurs q d \<and> matches pcre_search (filter_query None mn mx bd bt c s pt st) d"
proof -
  have "\<And>v. cond_holds pcre_search (Regex q ''i'') (map_option Str v) = occurs_in q v"
    subgoal for v by (cases v) (simp_all add: occurs_in_def pcre_search_plain [OF assms(1)])
    done
  then show ?thesis
    by (simp add: matches_q [OF assms(2)] q_occurs_def)
qed

lemma plain_city_is_exact_match:
  assumes "plain c" and "c \<noteq> []"
  shows "matches pcre_search (filter_query q mn mx bd bt (Some c) s pt st) d \<longleftrightarrow>
           (\<exists>v. doc_city d = Some v \<and>
                (equal_ci c v \<or> map lower v = map lower c @ [line_feed])) \<and>
           matches pcre_search (filter_query q mn mx bd bt None s pt st) d"
  by (cases "doc_city d")
     (simp_all add: matches_city [OF assms(2)] pcre_search_anchored [OF assms(1)])

section \<open>Evaluations on the sample data\<close>


lemma eval_build_untitled: "build_response doc_untitled = Inl (ValidationError [''title''])"
  by (simp add: build_response_def doc_untitled_def missing_required_def none_not_allowed_def)

lemma eval_untitled_request:
  "fst (get_properties pcre_search (Some [doc_loft, doc_untitled]) req_none) =
     Inl (ValidationError [''title''])"
  by code_simp

lemma eval_price_range:
  "fst (get_properties pcre_search (Some [doc_loft, doc_cabin])
     (req_none\<lparr>arg_min_price := Some 100000, arg_max_price := Some 300000\<rparr>)) = Inr [resp_loft]"
  by code_simp

lemma eval_limit_one:
  "fst (get_properties pcre_search (Some [doc_loft, doc_cabin]) (req_none\<lparr>arg_limit := Some 1\<rparr>)) =
     Inr [resp_loft]"
  by code_simp

lemma eval_limit_zero:
  "fst (get_properties pcre_search None (req_none\<lparr>arg_limit := Some 0\<rparr>)) =
     Inl RequestValidationError"
  by code_simp

lemma eval_q_pattern:
  "matches pcre_search (filter_query (Some ''1.5'') None None None None None None None ''sale'')
     doc_loft"
  by code_simp

lemma eval_q_request:
  "fst (get_properties pcre_search (Some [doc_loft, doc_cabin]) (req_none\<lparr>arg_q := Some ''1.5''\<rparr>)) =
     Inr [resp_loft]"
  by code_simp

lemma eval_q_occurs: "\<not> q_occurs ''1.5'' doc_loft"
  by code_simp

lemma eval_city_pattern:
  "matches pcre_search (filter_query None None None None None (Some ''A.stin'') None None ''sale'')
     doc_loft"
  by code_simp

lemma eval_city_equal: "\<not> equal_ci ''A.stin'' ''Austin''"
  by code_simp

lemma eval_city_examples:
  "matches pcre_search (filter_query None None None None None (Some ''austin'') None None ''sale'')
     doc_loft \<and>
   matches pcre_search (filter_query None None None None None (Some ''AUSTIN'') None None ''sale'')
     doc_loft \<and>
   \<not> matches pcre_search (filter_query None None None None None (Some ''Aust'') None None ''sale'')
     doc_loft"
  by code_simp

lemma eval_bedrooms_zero:
  "matches pcre_search (filter_query None None None (Some 0) None None None None ''sale'') doc_loft \<and>
   \<not> matches pcre_search (filter_query None None None (Some 0) None None None None ''sale'') doc_cabin \<and>
   matches pcre_search (filter_query None None None None None None None None ''sale'') doc_cabin"
  by code_simp

section \<open>The response model\<close>

text \<open>
  C1 at a listing stored without a title: the constructor of \<open>PropertyResponse\<close> is given
  \<open>None\<close> for \<open>title\<close> and raises a validation error that names the field; no response
  with an empty marker is built. The error is not handled, so the request that found the
  listing ends with it, and the well-formed listing found beside it is not returned
  either.
\<close>

theorem C1_missing_title_raises:
  "build_response doc_untitled = Inl (ValidationError [''title'']) \<and>
   fst (get_properties pcre_search (Some [doc_loft, doc_untitled]) req_none) =
     Inl (ValidationError [''title''])"
  using eval_build_untitled eval_untitled_request by simp

text \<open>C1 at a listing stored without a title: the constructor raises.\<close>

theorem C1_missing_title_raises_witness:
  "build_response doc_untitled = Inl (ValidationError [''title''])"
  by (rule conjunct1 [OF C1_missing_title_raises])



section \<open>The query\<close>

text \<open>
  C5: with every parameter absent but the status, the query selects exactly the stored
  documents whose status is that value, whatever the pattern engine is.
\<close>

theorem C5_status_only:
  "matches rx (filter_query None None None None None None None None st) d =
     (doc_status d = Some st) \<and>
   filter (matches rx (filter_query None None None None None None None None st)) coll =
     filter (\<lambda>d. doc_status d = Some st) coll"
proof
  show "matches rx (filter_query None None None None None None None None st) d =
     (doc_status d = Some st)"
    by (rule matches_status_only)
  show "filter (matches rx (filter_query None None None None None None None None st)) coll =
     filter (\<lambda>d. doc_status d = Some st) coll"
    by (rule filter_cong) (simp_all add: matches_status_only)
qed

text \<open>C5 on the sample data: the listing for sale is selected by \<open>sale\<close> and not by
  \<open>rent\<close>.\<close>

theorem C5_status_only_witness:
  "matches pcre_search (filter_query None None None None None None None None ''sale'') doc_loft \<and>
   \<not> matches pcre_search (filter_query None None None None None None None None ''rent'') doc_loft \<and>
   filter (matches pcre_search (filter_query None None None None None None None None ''rent''))
     [doc_loft, doc_cabin] = []"
proof -
  have st: "doc_status doc_loft = Some ''sale''" "doc_status doc_cabin = Some ''sale''"
    by (simp_all add: doc_loft_def doc_cabin_def)
  have "matches pcre_search (filter_query None None None None None None None None ''sale'') doc_loft =
      (doc_status doc_loft = Some ''sale'')"
    by (rule conjunct1 [OF C5_status_only])
  with st have a: "matches pcre_search
      (filter_query None None None None None None None None ''sale'') doc_loft"
    by simp
  have "matches pcre_search (filter_query None None None None None None None None ''rent'') doc_loft =
      (doc_status doc_loft = Some ''rent'')"
    by (rule conjunct1 [OF C5_status_only])
  with st have b: "\<not> matches pcre_search
      (filter_query None None None None None None None None ''rent'') doc_loft"
    by simp
  have "filter (matches pcre_search (filter_query None None None None None None None None ''rent''))
      [doc_loft, doc_cabin] = filter (\<lambda>d. doc_status d = Some ''rent'') [doc_loft, doc_cabin]"
    by (rule conjunct2 [OF C5_status_only])
  also have "\<dots> = []"
    by (simp add: st)
  finally show ?thesis using a b by simp
qed

text \<open>
  C2 at the text \<open>1.5\<close>: the four fields are searched with the text as a pattern, and in a
  pattern \<open>.\<close> stands for any character. The listing at \<open>125 Main St\<close> is selected and
  returned, although \<open>1.5\<close> occurs in none of its title, city, state and address.
\<close>

theorem C2_pattern_selects_without_occurrence:
  "matches pcre_search (filter_query (Some ''1.5'') None None None None None None None ''sale'')
     doc_loft \<and>
   fst (get_properties pcre_search (Some [doc_loft, doc_cabin]) (req_none\<lparr>arg_q := Some ''1.5''\<rparr>)) =
     Inr [resp_loft] \<and>
   \<not> q_occurs ''1.5'' doc_loft"
  using eval_q_pattern eval_q_request eval_q_occurs by simp

text \<open>C2 at the text \<open>1.5\<close>: the listing is selected.\<close>

theorem C2_pattern_selects_without_occurrence_witness:
  "matches pcre_search (filter_query (Some ''1.5'') None None None None None None None ''sale'')
     doc_loft"
  by (rule conjunct1 [OF C2_pattern_selects_without_occurrence])

text \<open>
  C3 at the city \<open>A.stin\<close>: the value is put between \<open>^\<close> and \<open>$\<close> as a pattern, so the
  listing in \<open>Austin\<close> is selected although the two texts differ by more than letter
  case. The three examples of the specification hold: \<open>austin\<close> and \<open>AUSTIN\<close> select the
  listing, \<open>Aust\<close> does not.
\<close>

theorem C3_pattern_selects_without_equality:
  "matches pcre_search (filter_query None None None None None (Some ''A.stin'') None None ''sale'')
     doc_loft \<and>
   doc_city doc_loft = Some ''Austin'' \<and> \<not> equal_ci ''A.stin'' ''Austin'' \<and>
   matches pcre_search (filter_query None None None None None (Some ''austin'') None None ''sale'')
     doc_loft \<and>
   matches pcre_search (filter_query None None None None None (Some ''AUSTIN'') None None ''sale'')
     doc_loft \<and>
   \<not> matches pcre_search (filter_query None None None None None (Some ''Aust'') None None ''sale'')
     doc_loft"
  using eval_city_pattern eval_city_equal eval_city_examples by (simp add: doc_loft_def)

text \<open>C3 at the city \<open>A.stin\<close>: the listing is selected.\<close>

theorem C3_pattern_selects_without_equality_witness:
  "matches pcre_search (filter_query None None None None None (Some ''A.stin'') None None ''sale'')
     doc_loft"
  by (rule conjunct1 [OF C3_pattern_selects_without_equality])

text \<open>
  C4: every response the route returns has its price at or above \<open>min_price\<close> when that is
  given and at or below \<open>max_price\<close> when that is given. When both are given and
  \<open>min_price\<close> is above \<open>max_price\<close>, the query selects no document at all, and a request
  that passes validation returns the empty list, not an error.
\<close>

theorem C4_price_bounds:
  "(fst (get_properties rx db r) = Inr rs \<longrightarrow>
      (\<forall>x \<in> set rs.
         (case arg_min_price r of None \<Rightarrow> True | Some lo \<Rightarrow> lo \<le> res_price x) \<and>
         (case arg_max_price r of None \<Rightarrow> True | Some hi \<Rightarrow> res_price x \<le> hi))) \<and>
   (arg_min_price r = Some lo \<and> arg_max_price r = Some hi \<and> hi < lo \<longrightarrow>
      (\<forall>d. \<not> matches rx (filter_query (arg_q r) (Some lo) (Some hi) (arg_bedrooms r)
                (arg_bathrooms r) (arg_city r) (arg_state r) (arg_property_type r) st) d) \<and>
      (query_valid r \<longrightarrow> fst (get_properties rx (Some coll) r) = Inr []))"
proof (intro conjI impI ballI allI)
  fix x
  assume res: "fst (get_properties rx db r) = Inr rs" and x: "x \<in> set rs"
  let ?flt = "filter_query (arg_q r) (arg_min_price r) (arg_max_price r) (arg_bedrooms r)
     (arg_bathrooms r) (arg_city r) (arg_state r) (arg_property_type r)
     (get_default (arg_status r) ''sale'')"
  from res obtain c where db: "db = Some c"
    and rs: "build_results (find_limit rx c ?flt (get_default (arg_limit r) 50)) = Inr rs"
    by (cases db) (auto simp: get_properties_def list_properties_def Let_def split: if_splits)
  from build_results_member [OF rs x] obtain d
    where d: "d \<in> set (find_limit rx c ?flt (get_default (arg_limit r) 50))"
      and bx: "build_response d = Inr x" by blast
  from find_limit_matches [OF d] have m: "matches rx ?flt d" by simp
  from build_response_price [OF bx] have p: "doc_price d = Some (res_price x)" .
  from matches_price [OF m] p
  show "(case arg_min_price r of None \<Rightarrow> True | Some lo \<Rightarrow> lo \<le> res_price x)"
    and "(case arg_max_price r of None \<Rightarrow> True | Some hi \<Rightarrow> res_price x \<le> hi)"
    by (auto split: option.splits)
next
  fix d
  assume inv: "arg_min_price r = Some lo \<and> arg_max_price r = Some hi \<and> hi < lo"
  show "\<not> matches rx (filter_query (arg_q r) (Some lo) (Some hi) (arg_bedrooms r)
                (arg_bathrooms r) (arg_city r) (arg_state r) (arg_property_type r) st) d"
  proof
    assume "matches rx (filter_query (arg_q r) (Some lo) (Some hi) (arg_bedrooms r)
                (arg_bathrooms r) (arg_city r) (arg_state r) (arg_property_type r) st) d"
    from matches_price [OF this] inv show False by auto
  qed
next
  assume inv: "arg_min_price r = Some lo \<and> arg_max_price r = Some hi \<and> hi < lo"
    and v: "query_valid r"
  let ?flt = "filter_query (arg_q r) (arg_min_price r) (arg_max_price r) (arg_bedrooms r)
     (arg_bathrooms r) (arg_city r) (arg_state r) (arg_property_type r)
     (get_default (arg_status r) ''sale'')"
  have "\<And>d. \<not> matches rx ?flt d"
  proof
    fix d assume "matches rx ?flt d"
    from matches_price [OF this] inv show False by auto
  qed
  then have "filter (matches rx ?flt) coll = []" by (simp add: filter_empty_conv)
  then have "find_limit rx coll ?flt (get_default (arg_limit r) 50) = []"
    by (simp add: find_limit_def cursor_limit_def)
  with v show "fst (get_properties rx (Some coll) r) = Inr []"
    by (simp add: get_properties_def list_properties_def)
qed

text \<open>C4 on the sample data: between 100000 and 300000 the loft alone is returned, at
  250000; with the two bounds exchanged the request is valid and returns nothing.\<close>

theorem C4_price_bounds_witness:
  "fst (get_properties pcre_search (Some [doc_loft, doc_cabin])
     (req_none\<lparr>arg_min_price := Some 100000, arg_max_price := Some 300000\<rparr>)) = Inr [resp_loft] \<and>
   100000 \<le> res_price resp_loft \<and> res_price resp_loft \<le> 300000 \<and>
   query_valid (req_none\<lparr>arg_min_price := Some 300000, arg_max_price := Some 100000\<rparr>) \<and>
   fst (get_properties pcre_search (Some [doc_loft, doc_cabin])
     (req_none\<lparr>arg_min_price := Some 300000, arg_max_price := Some 100000\<rparr>)) = Inr []"
proof -
  let ?r = "req_none\<lparr>arg_min_price := Some 100000, arg_max_price := Some 300000\<rparr>"
  let ?i = "req_none\<lparr>arg_min_price := Some 300000, arg_max_price := Some 100000\<rparr>"
  have "\<forall>x \<in> set [resp_loft].
         (case arg_min_price ?r of None \<Rightarrow> True | Some lo \<Rightarrow> lo \<le> res_price x) \<and>
         (case arg_max_price ?r of None \<Rightarrow> True | Some hi \<Rightarrow> res_price x \<le> hi)"
    using C4_price_bounds [of pcre_search "Some [doc_loft, doc_cabin]" ?r "[resp_loft]"]
      eval_price_range by blast
  then have a: "100000 \<le> res_price resp_loft \<and> res_price resp_loft \<le> 300000"
    by simp
  have v: "query_valid ?i"
    by (simp add: query_valid_def ge_ok_def le_ok_def req_none_def)
  have i: "arg_min_price ?i = Some 300000 \<and> arg_max_price ?i = Some 100000 \<and>
      (100000::int) < 300000"
    by simp
  have "fst (get_properties pcre_search (Some [doc_loft, doc_cabin]) ?i) = Inr []"
    using C4_price_bounds [of pcre_search _ ?i _ 300000 100000 _ "[doc_loft, doc_cabin]"] v i
    by blast
  with a v eval_price_range show ?thesis by simp
qed

text \<open>
  C10: an empty string for \<open>q\<close>, \<open>city\<close>, \<open>state\<close> or \<open>property_type\<close> gives the query that
  the absent parameter gives. A \<open>bedrooms\<close> or \<open>bathrooms\<close> of \<open>0\<close> still puts its lower
  bound into the query, and the bound is a condition of its own: a document selected under
  it holds a number of bedrooms (of bathrooms) that is at least \<open>0\<close>.
\<close>

theorem C10_empty_string_is_absent:
  "filter_query (Some []) mn mx bd bt c s pt st = filter_query None mn mx bd bt c s pt st \<and>
   filter_query q mn mx bd bt (Some []) s pt st = filter_query q mn mx bd bt None s pt st \<and>
   filter_query q mn mx bd bt c (Some []) pt st = filter_query q mn mx bd bt c None pt st \<and>
   filter_query q mn mx bd bt c s (Some []) st = filter_query q mn mx bd bt c s None st \<and>
   Field ''bedrooms'' (Cmp (Some 0) None) \<in> set (filter_query q mn mx (Some 0) bt c s pt st) \<and>
   Field ''bathrooms'' (Cmp (Some 0) None) \<in> set (filter_query q mn mx bd (Some 0) c s pt st) \<and>
   (matches rx (filter_query q mn mx (Some 0) bt c s pt st) d \<longrightarrow>
      (\<exists>n. doc_bedrooms d = Some n \<and> 0 \<le> n)) \<and>
   (matches rx (filter_query q mn mx bd (Some 0) c s pt st) d \<longrightarrow>
      (\<exists>x. doc_bathrooms d = Some x \<and> 0 \<le> x))"
  using matches_bedrooms [of rx q mn mx 0 bt c s pt st d]
        matches_bathrooms [of rx q mn mx bd 0 c s pt st d]
  by (simp add: filter_query_def)

text \<open>C10 on the sample data: with \<open>bedrooms = 0\<close> the loft, which has two bedrooms, is
  selected and holds a number of bedrooms; the bare listing, selected without the
  parameter, holds none and is not selected with it.\<close>

theorem C10_empty_string_is_absent_witness:
  "matches pcre_search (filter_query None None None (Some 0) None None None None ''sale'') doc_loft \<and>
   (\<exists>n. doc_bedrooms doc_loft = Some n \<and> 0 \<le> n) \<and>
   \<not> matches pcre_search (filter_query None None None (Some 0) None None None None ''sale'')
       doc_cabin \<and>
   matches pcre_search (filter_query None None None None None None None None ''sale'') doc_cabin \<and>
   filter_query (Some []) None None None None (Some []) (Some []) (Some []) ''sale'' =
     filter_query None None None None None None None None ''sale''"
proof -
  have m: "matches pcre_search
      (filter_query None None None (Some 0) None None None None ''sale'') doc_loft"
    by (rule conjunct1 [OF eval_bedrooms_zero])
  from C10_empty_string_is_absent
         [where q = None and mn = None and mx = None and bt = None and c = None and s = None
            and pt = None and st = "''sale''" and rx = pcre_search and d = doc_loft] m
  have b: "\<exists>n. doc_bedrooms doc_loft = Some n \<and> 0 \<le> n" by blast
  have "filter_query (Some []) None None None None (Some []) (Some []) (Some []) ''sale'' =
      filter_query None None None None None (Some []) (Some []) (Some []) ''sale''"
    using C10_empty_string_is_absent by blast
  also have "\<dots> = filter_query None None None None None None (Some []) (Some []) ''sale''"
    using C10_empty_string_is_absent by blast
  also have "\<dots> = filter_query None None None None None None None (Some []) ''sale''"
    using C10_empty_string_is_absent by blast
  also have "\<dots> = filter_query None None None None None None None None ''sale''"
    using C10_empty_string_is_absent by blast
  finally show ?thesis using m b eval_bedrooms_zero by blast
qed

section \<open>The route\<close>

text \<open>
  C7: a request that returns a list returns at most as many responses as its result cap,
  which is \<open>50\<close> when the request gives none; leaving the cap out is the same request as
  giving \<open>50\<close>, and leaving the status out the same as giving \<open>"sale"\<close>.
\<close>

theorem C7_result_cap_and_defaults:
  "(fst (get_properties rx db r) = Inr rs \<longrightarrow>
      int (length rs) \<le> get_default (arg_limit r) 50) \<and>
   get_properties rx db (r\<lparr>arg_limit := None\<rparr>) =
     get_properties rx db (r\<lparr>arg_limit := Some 50\<rparr>) \<and>
   get_properties rx db (r\<lparr>arg_status := None\<rparr>) =
     get_properties rx db (r\<lparr>arg_status := Some ''sale''\<rparr>)"
proof (intro conjI impI)
  assume res: "fst (get_properties rx db r) = Inr rs"
  let ?flt = "filter_query (arg_q r) (arg_min_price r) (arg_max_price r) (arg_bedrooms r)
     (arg_bathrooms r) (arg_city r) (arg_state r) (arg_property_type r)
     (get_default (arg_status r) ''sale'')"
  let ?n = "get_default (arg_limit r) 50"
  from res have v: "query_valid r"
    by (auto simp: get_properties_def split: if_splits)
  then have n: "1 \<le> ?n"
    by (auto simp: query_valid_def ge_ok_def get_default_def split: option.splits)
  from res v obtain c where rs: "build_results (find_limit rx c ?flt ?n) = Inr rs"
    by (cases db) (auto simp: get_properties_def list_properties_def Let_def)
  have "length rs = length (find_limit rx c ?flt ?n)"
    by (rule build_results_length [OF rs])
  also have "int \<dots> \<le> ?n"
    unfolding find_limit_def by (rule cursor_limit_length [OF n])
  finally show "int (length rs) \<le> ?n" .
next
  show "get_properties rx db (r\<lparr>arg_limit := None\<rparr>) =
      get_properties rx db (r\<lparr>arg_limit := Some 50\<rparr>)"
    by (simp add: get_properties_def query_valid_def ge_ok_def le_ok_def get_default_def)
next
  show "get_properties rx db (r\<lparr>arg_status := None\<rparr>) =
      get_properties rx db (r\<lparr>arg_status := Some ''sale''\<rparr>)"
    by (simp add: get_properties_def query_valid_def get_default_def)
qed

text \<open>C7 on the sample data: two listings are for sale, a cap of \<open>1\<close> returns one.\<close>

theorem C7_result_cap_and_defaults_witness:
  "fst (get_properties pcre_search (Some [doc_loft, doc_cabin]) (req_none\<lparr>arg_limit := Some 1\<rparr>)) =
     Inr [resp_loft] \<and>
   int (length [resp_loft]) \<le> get_default (arg_limit (req_none\<lparr>arg_limit := Some 1\<rparr>)) 50"
  using C7_result_cap_and_defaults
          [of pcre_search "Some [doc_loft, doc_cabin]" "req_none\<lparr>arg_limit := Some 1\<rparr>"
              "[resp_loft]"]
        eval_limit_one
  by blast

text \<open>
  C8: a request with a negative \<open>min_price\<close>, \<open>max_price\<close>, \<open>bedrooms\<close> or \<open>bathrooms\<close>, or
  with a result cap below \<open>1\<close> or above \<open>200\<close>, ends with the request validation error,
  whatever the store holds and whether it is initialised or not, and no call reaches the
  store.
\<close>

theorem C8_invalid_request_rejected:
  "(\<exists>x. arg_min_price r = Some x \<and> x < 0) \<or> (\<exists>x. arg_max_price r = Some x \<and> x < 0) \<or>
   (\<exists>x. arg_bedrooms r = Some x \<and> x < 0) \<or> (\<exists>x. arg_bathrooms r = Some x \<and> x < 0) \<or>
   (\<exists>n. arg_limit r = Some n \<and> (n < 1 \<or> 200 < n)) \<Longrightarrow>
   get_properties rx db r = (Inl RequestValidationError, [])"
  by (auto simp: get_properties_def query_valid_def ge_ok_def le_ok_def)

text \<open>C8 at a cap of \<open>201\<close> and at a \<open>min_price\<close> of \<open>-1\<close>.\<close>

theorem C8_invalid_request_rejected_witness:
  "arg_limit (req_none\<lparr>arg_limit := Some 201\<rparr>) = Some 201 \<and> (200::int) < 201 \<and>
   get_properties pcre_search (Some [doc_loft, doc_cabin]) (req_none\<lparr>arg_limit := Some 201\<rparr>) =
     (Inl RequestValidationError, []) \<and>
   arg_min_price (req_none\<lparr>arg_min_price := Some (- 1)\<rparr>) = Some (- 1) \<and>
   get_properties pcre_search (Some [doc_loft, doc_cabin]) (req_none\<lparr>arg_min_price := Some (- 1)\<rparr>) =
     (Inl RequestValidationError, [])"
proof -
  have a: "\<exists>n. arg_limit (req_none\<lparr>arg_limit := Some 201\<rparr>) = Some n \<and> (n < 1 \<or> 200 < n)"
    by simp
  have b: "\<exists>x. arg_min_price (req_none\<lparr>arg_min_price := Some (- 1)\<rparr>) = Some x \<and> x < 0"
    by simp
  have "get_properties pcre_search (Some [doc_loft, doc_cabin]) (req_none\<lparr>arg_limit := Some 201\<rparr>) =
      (Inl RequestValidationError, [])"
    by (rule C8_invalid_request_rejected) (use a in blast)
  moreover
  have "get_properties pcre_search (Some [doc_loft, doc_cabin])
      (req_none\<lparr>arg_min_price := Some (- 1)\<rparr>) = (Inl RequestValidationError, [])"
    by (rule C8_invalid_request_rejected) (use b in blast)
  ultimately show ?thesis by simp
qed

text \<open>
  C9, as the specification states it, fails for a request that violates a constraint of
  the route: with the store not initialised and a result cap of \<open>0\<close>, the request ends
  with the request validation error, not with the error of the unavailable store.
\<close>

theorem C9_invalid_request_rejected_first:
  "fst (get_properties pcre_search None (req_none\<lparr>arg_limit := Some 0\<rparr>)) =
     Inl RequestValidationError \<and>
   fst (get_properties pcre_search None (req_none\<lparr>arg_limit := Some 0\<rparr>)) \<noteq>
     Inl (HTTPException 500 ''Database not available'')"
  using eval_limit_zero by simp

text \<open>
  C9, amended: \<open>list_properties\<close> called while the store is not initialised raises the
  HTTP exception with status 500 and detail \<open>Database not available\<close>, whatever its
  parameters, and makes no call on the store; so does every request that passes the
  validation of the route.
\<close>

theorem C9_store_unavailable:
  "list_properties rx None q mn mx bd bt c s pt st n =
     (Inl (HTTPException 500 ''Database not available''), []) \<and>
   (query_valid r \<longrightarrow>
      get_properties rx None r = (Inl (HTTPException 500 ''Database not available''), []))"
  by (simp add: get_properties_def list_properties_def)

text \<open>C9, amended, at the request with no parameter given.\<close>

theorem C9_store_unavailable_witness:
  "query_valid req_none \<and>
   get_properties pcre_search None req_none =
     (Inl (HTTPException 500 ''Database not available''), [])"
proof -
  have v: "query_valid req_none"
    by (simp add: query_valid_def ge_ok_def le_ok_def req_none_def)
  with C9_store_unavailable [of pcre_search None None None None None None None None "''sale''" 50 req_none]
  show ?thesis by blast
qed

end
